theory Spec2Isabelle
  imports Complex_Main
begin

section \<open>Arctis Nova Pro Wireless driver: data model\<close>

text \<open>
  The driver \<^verbatim>\<open>ArctisNovaProWirelessDevice\<close> of
  \<^verbatim>\<open>arctis_chatmix/devices/device_arctis_nova_pro_wireless.py\<close>.
  Reports are Python lists of ints (\<open>int list\<close>); Python floats are modelled by the
  exact reals they approximate (every quotient and rounding below is taken on the exact
  value, which is what the double computation rounds to the nearest double).
\<close>

datatype error = KeyError int | IndexError | ResolutionError

text \<open>
  Modelled from the spec: the class \<^verbatim>\<open>InterfaceEndpoint\<close> (an interface index and an
  endpoint index, compared by value) is imported from \<^verbatim>\<open>device_manager\<close>.
\<close>

record InterfaceEndpoint =
  interface :: int
  endpoint :: int

datatype direction = In | Out

text \<open>
  Modelled from the spec: the class \<^verbatim>\<open>DeviceStatusValue\<close> of
  \<^verbatim>\<open>device_manager/device_status.py\<close> is missing. It carries the raw value and exactly
  one meaning: a symbolic label (second positional argument), or the value
  produced by applying the transform \<^verbatim>\<open>mapped_val\<close> to the raw value. A transform that
  raises makes the construction raise.
\<close>

datatype meaning = Label string | IntVal int | FloatVal real

record DeviceStatusValue =
  raw_value :: int
  interp :: meaning

definition status_text :: "int \<Rightarrow> string \<Rightarrow> DeviceStatusValue" where
  "status_text raw label = \<lparr>raw_value = raw, interp = Label label\<rparr>"

definition mapped_val :: "int \<Rightarrow> (int \<Rightarrow> error + meaning) \<Rightarrow> error + DeviceStatusValue" where
  "mapped_val raw f =
     (case f raw of Inl e \<Rightarrow> Inl e | Inr v \<Rightarrow> Inr \<lparr>raw_value = raw, interp = v\<rparr>)"

text \<open>The same constructor with a transform that cannot raise (arithmetic on the raw value).\<close>

definition mapped_total :: "int \<Rightarrow> (int \<Rightarrow> meaning) \<Rightarrow> DeviceStatusValue" where
  "mapped_total raw f = \<lparr>raw_value = raw, interp = f raw\<rparr>"

text \<open>Modelled from the spec: the dataclass \<^verbatim>\<open>DeviceStatus\<close> with its 14 named fields.\<close>

record DeviceStatus =
  bluetooth_powerup_state :: DeviceStatusValue
  bluetooth_auto_mute :: DeviceStatusValue
  bluetooth_power_status :: DeviceStatusValue
  bluetooth_connection :: DeviceStatusValue
  headset_battery_charge :: DeviceStatusValue
  charge_slot_battery_charge :: DeviceStatusValue
  transparent_noise_cancelling_level :: DeviceStatusValue
  mic_status :: DeviceStatusValue
  noise_cancelling :: DeviceStatusValue
  mic_led_brightness :: DeviceStatusValue
  auto_off_time_minutes :: DeviceStatusValue
  wireless_mode :: DeviceStatusValue
  wireless_pairing :: DeviceStatusValue
  headset_power_status :: DeviceStatusValue

text \<open>Modelled from the spec: the class \<^verbatim>\<open>ChatMixState\<close>.\<close>

record ChatMixState =
  game_volume :: real
  chat_volume :: real
  game_mix :: real
  chat_mix :: real
  device_status :: "DeviceStatus option"

text \<open>
  The driver instance: the attributes \<^verbatim>\<open>self.game_mix\<close> and \<^verbatim>\<open>self.chat_mix\<close>
  (\<^verbatim>\<open>None\<close> until the first mix report) and what \<^verbatim>\<open>self.log.debug\<close> has received.
  A formatted message is kept as its arguments.
\<close>

datatype log_entry = DebugText string | DebugIncoming int int "int list"

record driver =
  self_game_mix :: "real option"
  self_chat_mix :: "real option"
  self_log :: "log_entry list"

section \<open>Status decoding\<close>

definition INACTIVE_TIME_MINUTES :: "int \<rightharpoonup> int" where
  "INACTIVE_TIME_MINUTES =
     [0 \<mapsto> 0, 1 \<mapsto> 1, 2 \<mapsto> 5, 3 \<mapsto> 10, 4 \<mapsto> 15, 5 \<mapsto> 30, 6 \<mapsto> 60]"

text \<open>\<^verbatim>\<open>INACTIVE_TIME_MINUTES[x]\<close>: a missing key raises \<^verbatim>\<open>KeyError\<close>.\<close>

definition inactive_time_lookup :: "int \<Rightarrow> error + meaning" where
  "inactive_time_lookup x =
     (case INACTIVE_TIME_MINUTES x of None \<Rightarrow> Inl (KeyError x) | Some m \<Rightarrow> Inr (IntVal m))"

text \<open>
  Python's \<^verbatim>\<open>round(r, n)\<close> on a float: to the nearest multiple of \<open>10\<^sup>-\<^sup>n\<close>, a tie to
  the even one.
\<close>

definition round_half_even :: "real \<Rightarrow> int" where
  "round_half_even r =
     (let f = \<lfloor>r\<rfloor> in
      if r - of_int f < 1 / 2 then f
      else if r - of_int f > 1 / 2 then f + 1
      else if even f then f else f + 1)"

definition py_round :: "real \<Rightarrow> nat \<Rightarrow> real" where
  "py_round r n = of_int (round_half_even (r * 10 ^ n)) / 10 ^ n"

text \<open>The constructor call of lines 118 to 136; only the lookup of offset 12 can raise.\<close>

definition decode_status :: "int list \<Rightarrow> error + DeviceStatus" where
  "decode_status data =
     (case mapped_val (data ! 12) inactive_time_lookup of
        Inl e \<Rightarrow> Inl e
      | Inr auto_off \<Rightarrow> Inr \<lparr>
          bluetooth_powerup_state =
            status_text (data ! 2) (if data ! 2 = 0x00 then ''on_off.off'' else ''on_off.on''),
          bluetooth_auto_mute =
            status_text (data ! 3)
              (if data ! 3 = 0x00 then ''on_off.off''
               else if data ! 3 = 0x01 then ''db.-12db'' else ''on_off.on''),
          bluetooth_power_status =
            status_text (data ! 4) (if data ! 4 = 0x01 then ''on_off.off'' else ''on_off.on''),
          bluetooth_connection =
            status_text (data ! 5)
              (if data ! 5 = 0x00 then ''on_off.off''
               else if data ! 5 = 0x01 then ''connection.connected''
               else ''connection.disconnected''),
          headset_battery_charge =
            mapped_total (data ! 6) (\<lambda>x. FloatVal (py_round (of_int x / 8) 2)),
          charge_slot_battery_charge =
            mapped_total (data ! 7) (\<lambda>x. FloatVal (py_round (of_int x / 8) 2)),
          transparent_noise_cancelling_level =
            mapped_total (data ! 8) (\<lambda>x. FloatVal (py_round (of_int x / 10) 0)),
          mic_status =
            status_text (data ! 9)
              (if data ! 9 = 0x00 then ''mic_status.unmuted'' else ''mic_status.muted''),
          noise_cancelling =
            status_text (data ! 10)
              (if data ! 10 = 0x00 then ''off''
               else if data ! 10 = 0x01 then ''transparent'' else ''on''),
          mic_led_brightness =
            mapped_total (data ! 11) (\<lambda>x. FloatVal (of_int x / 10)),
          auto_off_time_minutes = auto_off,
          wireless_mode =
            status_text (data ! 13)
              (if data ! 13 = 0x00 then ''wireless_mode.speed'' else ''wireless_mode.range''),
          wireless_pairing =
            status_text (data ! 14)
              (if data ! 14 = 0x01 then ''pairing.not_paired''
               else if data ! 13 = 0x04 then ''pairing.paired_offline''
               else ''connection.connected''),
          headset_power_status =
            status_text (data ! 15)
              (if data ! 15 = 0x01 then ''connection.offline''
               else if data ! 14 = 0x02 then ''connection.cable_charging''
               else ''connection.online'')\<rparr>)"

section \<open>Input dispatch\<close>

text \<open>The \<^verbatim>\<open>return ChatMixState(...)\<close> of lines 142 to 148, with \<^verbatim>\<open>volume = 1\<close>.\<close>

definition chat_mix_state :: "driver \<Rightarrow> DeviceStatus option \<Rightarrow> ChatMixState" where
  "chat_mix_state self st =
     \<lparr>game_volume = 1, chat_volume = 1,
      game_mix = (case self_game_mix self of Some g \<Rightarrow> g | None \<Rightarrow> 1),
      chat_mix = (case self_chat_mix self of Some c \<Rightarrow> c | None \<Rightarrow> 1),
      device_status = st\<rparr>"

definition log_debug :: "log_entry \<Rightarrow> driver \<Rightarrow> driver" where
  "log_debug m self = self\<lparr>self_log := self_log self @ [m]\<rparr>"

text \<open>
  \<^verbatim>\<open>manage_input_data\<close> returns the raised error or the returned state, and the driver
  instance as the call leaves it.
\<close>

definition manage_input_data ::
    "driver \<Rightarrow> int list \<Rightarrow> InterfaceEndpoint \<Rightarrow> (error + ChatMixState) \<times> driver" where
  "manage_input_data self data ep =
     (if ep = \<lparr>interface = 7, endpoint = 0\<rparr> then
        if length data \<ge> 2 \<and> data ! 0 = 0x07 \<and> data ! 1 = 0x25 then
          (Inr (chat_mix_state self None), self)
        else if length data \<ge> 4 \<and> data ! 0 = 0x07 \<and> data ! 1 = 0x45 then
          (let self1 = log_debug (DebugText ''Received volume control data.'') self;
               self2 = self1\<lparr>self_game_mix := Some (of_int (data ! 2) / 100)\<rparr>;
               self3 = self2\<lparr>self_chat_mix := Some (of_int (data ! 3) / 100)\<rparr>
           in (Inr (chat_mix_state self3 None), self3))
        else if length data \<ge> 16 \<and> data ! 0 = 0x06 \<and> data ! 1 = 0xb0 then
          (case decode_status data of
             Inl e \<Rightarrow> (Inl e, self)
           | Inr st \<Rightarrow> (Inr (chat_mix_state self (Some st)), self))
        else
          (let self1 = log_debug (DebugIncoming (interface ep) (endpoint ep) data) self
           in (Inr (chat_mix_state self1 None), self1))
      else
        (let self1 = log_debug (DebugIncoming (interface ep) (endpoint ep) data) self
         in (Inr (chat_mix_state self1 None), self1)))"

text \<open>What a call leaves behind for its caller: the decoded status, if any.\<close>

definition decoded_status :: "(error + ChatMixState) \<times> driver \<Rightarrow> DeviceStatus option" where
  "decoded_status r = (case fst r of Inl e \<Rightarrow> None | Inr s \<Rightarrow> device_status s)"

section \<open>Initialization\<close>

text \<open>Python indexing of a sequence: a negative index counts from the end.\<close>

definition py_index :: "'a list \<Rightarrow> int \<Rightarrow> error + 'a" where
  "py_index xs i =
     (if 0 \<le> i \<and> i < int (length xs) then Inr (xs ! nat i)
      else if i < 0 \<and> - int (length xs) \<le> i then Inr (xs ! nat (int (length xs) + i))
      else Inl IndexError)"

text \<open>\<^verbatim>\<open>[*packet, *[0 for _ in range(size - len(packet))]]\<close>; an empty range when negative.\<close>

definition packet_0_filler :: "int list \<Rightarrow> int \<Rightarrow> int list" where
  "packet_0_filler packet sz = packet @ replicate (nat (sz - int (length packet))) 0"

text \<open>The literal table of \<^verbatim>\<open>init_device\<close>: command bytes, expects response.\<close>

definition commands :: "(int list \<times> bool) list" where
  "commands = [
     ([0x06, 0x20], True),
     ([0x06, 0x20], True),
     ([0x06, 0x10], True),
     ([0x06, 0x10], True),
     ([0x06, 0x10], True),
     ([0x06, 0x3b], False),
     ([0x06, 0x8d, 0x01], True),
     ([0x06, 0x20], True),
     ([0x06, 0x20], True),
     ([0x06, 0x20], True),
     ([0x06, 0x80], True),
     ([0x06, 0x3b], False),
     ([0x06, 0x8d, 0x01], False),
     ([0x06, 0x33, 0x14, 0x14, 0x14], False),
     ([0x06, 0xc3, 0x00], False),
     ([0x06, 0x2e, 0x00], False),
     ([0x06, 0xc1, 0x05], False),
     ([0x06, 0x85, 0x0a], False),
     ([0x06, 0x37, 0x0a], False),
     ([0x06, 0xb2], False),
     ([0x06, 0x47, 0x64, 0x00, 0x64], False),
     ([0x06, 0x83, 0x01], False),
     ([0x06, 0x89, 0x00], False),
     ([0x06, 0x27, 0x02], False),
     ([0x06, 0xb3, 0x00], False),
     ([0x06, 0x39, 0x00], False),
     ([0x06, 0xbf, 0x0a], False),
     ([0x06, 0x43, 0x01], False),
     ([0x06, 0x69, 0x00], False),
     ([0x06, 0x3b, 0x00], False),
     ([0x06, 0x8d, 0x01], False),
     ([0x06, 0x49, 0x01], False),
     ([0x06, 0xb7, 0x00], False),
     ([0x06, 0xb7, 0x00], True),
     ([0x06, 0xb7, 0x00], True),
     ([0x06, 0xb0, 0x00], True),
     ([0x06, 0x20, 0x00], True),
     ([0x06, 0xb7, 0x00], True)]"

text \<open>
  What the driver does to the USB device, in order. \<^verbatim>\<open>utility_guess_endpoint\<close> and
  \<^verbatim>\<open>kernel_detach\<close> belong to the missing base class \<^verbatim>\<open>DeviceManager\<close>: the first is
  a parameter (it may fail), the second is recorded as an event. The device descriptor is
  the table of the \<^verbatim>\<open>bEndpointAddress\<close> of each endpoint of each interface of
  configuration 0.
\<close>

datatype usb_event = KernelDetach InterfaceEndpoint | Write int "int list" | Read int

definition get_request_device_status ::
    "(int \<Rightarrow> direction \<Rightarrow> error + InterfaceEndpoint) \<Rightarrow> error + InterfaceEndpoint \<times> int list" where
  "get_request_device_status utility_guess_endpoint =
     (case utility_guess_endpoint 7 Out of
        Inl e \<Rightarrow> Inl e
      | Inr ep \<Rightarrow> Inr (ep, [0x06, 0xb0]))"

text \<open>The loop of lines 98 and 99: one write per command, nothing else.\<close>

primrec write_commands :: "int \<Rightarrow> (int list \<times> bool) list \<Rightarrow> usb_event list" where
  "write_commands addr [] = []"
| "write_commands addr (command # rest) =
     Write addr (packet_0_filler (fst command) 91) # write_commands addr rest"

definition init_device ::
    "(int \<Rightarrow> direction \<Rightarrow> error + InterfaceEndpoint) \<Rightarrow> int list list \<Rightarrow> error + usb_event list" where
  "init_device utility_guess_endpoint interfaces =
     (case get_request_device_status utility_guess_endpoint of
        Inl e \<Rightarrow> Inl e
      | Inr (ep, _) \<Rightarrow>
          (case py_index interfaces (interface ep) of
             Inl e \<Rightarrow> Inl e
           | Inr endpoints \<Rightarrow>
               (case py_index endpoints (endpoint ep) of
                  Inl e \<Rightarrow> Inl e
                | Inr commands_endpoint_address \<Rightarrow>
                    Inr (KernelDetach ep # write_commands commands_endpoint_address commands))))"

text \<open>The payloads written, in order, and the events of a run that did not raise.\<close>

fun written_frames :: "usb_event list \<Rightarrow> int list list" where
  "written_frames [] = []"
| "written_frames (Write addr frame # es) = frame # written_frames es"
| "written_frames (e # es) = written_frames es"

definition events_of :: "error + usb_event list \<Rightarrow> usb_event list" where
  "events_of r = (case r of Inl e \<Rightarrow> [] | Inr es \<Rightarrow> es)"

section \<open>Settings catalog\<close>

text \<open>
  Modelled from the spec: the classes \<^verbatim>\<open>SliderSetting\<close> and \<^verbatim>\<open>ToggleSetting\<close> of
  \<^verbatim>\<open>device_manager/device_settings.py\<close>, their arguments in the order of the calls:
  name, the two label keys, then minimum, maximum, step and current value (slider) or
  current value (toggle), then the callback. Every callback of the catalog is
  \<^verbatim>\<open>lambda x: print(x)\<close>.
\<close>

datatype callback = PrintValue

datatype DeviceSetting =
    SliderSetting string string string int int int int callback
  | ToggleSetting string string string bool callback

text \<open>The dict literal, in insertion order; neither \<^verbatim>\<open>self\<close> nor \<^verbatim>\<open>state\<close> is read.\<close>

definition get_configurable_settings ::
    "driver \<Rightarrow> DeviceStatus option \<Rightarrow> (string \<times> DeviceSetting list) list \<times> driver" where
  "get_configurable_settings self state =
     ([(''microphone'',
         [SliderSetting ''mic_volume'' ''mic_volume_muted'' ''mic_volume_max'' 0x01 0x10 1 0x10 PrintValue,
          SliderSetting ''mic_side_tone'' ''mic_side_tone_none'' ''mic_side_tone_high'' 0x00 0x03 1 0x00 PrintValue,
          ToggleSetting ''mic_gain'' ''mic_gain_low'' ''mic_gain_high'' True PrintValue]),
       (''anc'',
         [SliderSetting ''anc_level'' ''anc_level_low'' ''anc_level_high'' 0x00 0x03 1 0x00 PrintValue]),
       (''power_management'',
         [SliderSetting ''pm_shutdown'' ''pm_shutdown_disabled'' ''pm_shutdown_60_minutes'' 0x00 0x06 1 0x04 PrintValue]),
       (''wireless'',
         [ToggleSetting ''wireless_mode'' ''wireless_mode_speed'' ''wireless_mode_range'' False PrintValue])],
      self)"

section \<open>What the specification asks of initialization\<close>

text \<open>
  The specification's reading of the \<^verbatim>\<open>expectsResponse\<close> flag, as a check on a run's
  events: the table is followed entry by entry, each command is written as one padded
  frame, and a command that expects a response has its acknowledgement read before the
  next command is written.
\<close>

fun spec_acks_read :: "(int list \<times> bool) list \<Rightarrow> usb_event list \<Rightarrow> bool" where
  "spec_acks_read [] es = (written_frames es = [])"
| "spec_acks_read (c # cs) (KernelDetach ep # es) = spec_acks_read (c # cs) es"
| "spec_acks_read ((bytes, True) # cs) (Write a frame # Read b # es) =
     (frame = packet_0_filler bytes 91 \<and> spec_acks_read cs es)"
| "spec_acks_read ((bytes, False) # cs) (Write a frame # es) =
     (frame = packet_0_filler bytes 91 \<and> spec_acks_read cs es)"
| "spec_acks_read cs es = False"

section \<open>Auxiliary facts\<close>

lemma INACTIVE_TIME_MINUTES_outside: "x \<notin> {0..6} \<Longrightarrow> INACTIVE_TIME_MINUTES x = None"
  by (auto simp: INACTIVE_TIME_MINUTES_def)

lemma INACTIVE_TIME_MINUTES_inside:
  assumes "x \<in> {0..6}"
  shows "\<exists>m. INACTIVE_TIME_MINUTES x = Some m"
proof -
  from assms have "x = 0 \<or> x = 1 \<or> x = 2 \<or> x = 3 \<or> x = 4 \<or> x = 5 \<or> x = 6"
    by auto
  then show ?thesis
    by (auto simp: INACTIVE_TIME_MINUTES_def)
qed

lemma decode_status_ok:
  assumes "data ! 12 \<in> {0..6}"
  shows "\<exists>st. decode_status data = Inr st"
proof -
  from INACTIVE_TIME_MINUTES_inside[OF assms]
  obtain m where "INACTIVE_TIME_MINUTES (data ! 12) = Some m" ..
  then show ?thesis
    by (simp add: decode_status_def mapped_val_def inactive_time_lookup_def)
qed

lemma manage_status_report:
  assumes "length data \<ge> 16" "data ! 0 = 0x06" "data ! 1 = 0xb0"
  shows "manage_input_data self data \<lparr>interface = 7, endpoint = 0\<rparr> =
           (case decode_status data of
              Inl e \<Rightarrow> (Inl e, self)
            | Inr st \<Rightarrow> (Inr (chat_mix_state self (Some st)), self))"
  using assms by (simp add: manage_input_data_def)

lemma manage_unrecognized:
  assumes "\<not> (length data \<ge> 2 \<and> data ! 0 = 0x07 \<and> data ! 1 = 0x25)"
      and "\<not> (length data \<ge> 4 \<and> data ! 0 = 0x07 \<and> data ! 1 = 0x45)"
      and "\<not> (length data \<ge> 16 \<and> data ! 0 = 0x06 \<and> data ! 1 = 0xb0)"
  shows "manage_input_data self data \<lparr>interface = 7, endpoint = 0\<rparr> =
           (let self1 = log_debug (DebugIncoming 7 0 data) self
            in (Inr (chat_mix_state self1 None), self1))"
  unfolding manage_input_data_def using assms
  by (simp only: if_True if_False simp_thms InterfaceEndpoint.simps)

lemma written_frames_write_commands:
  "written_frames (write_commands addr cs) = map (\<lambda>c. packet_0_filler (fst c) 91) cs"
  by (induction cs) simp_all

lemma write_commands_map:
  "write_commands addr cs = map (\<lambda>c. Write addr (packet_0_filler (fst c) 91)) cs"
  by (induction cs) simp_all

lemma write_commands_no_read: "Read b \<notin> set (write_commands addr cs)"
  by (induction cs) simp_all

lemma init_device_events:
  assumes "init_device g ifs = Inr es"
  shows "\<exists>ep addr. g 7 Out = Inr ep \<and> es = KernelDetach ep # write_commands addr commands"
  using assms
  by (auto simp: init_device_def get_request_device_status_def split: sum.splits prod.splits)

lemma init_device_example:
  "init_device (\<lambda>i d. Inr \<lparr>interface = i, endpoint = 1\<rparr>)
       [[], [], [], [], [], [], [], [0x84, 0x04]] =
     Inr (KernelDetach \<lparr>interface = 7, endpoint = 1\<rparr> # write_commands 0x04 commands)"
  by (simp add: init_device_def get_request_device_status_def py_index_def)

lemma packet_0_filler_take: "take (length p) (packet_0_filler p sz) = p"
  by (simp add: packet_0_filler_def)

lemma packet_0_filler_zero:
  "length p \<le> i \<Longrightarrow> i < length (packet_0_filler p sz) \<Longrightarrow> packet_0_filler p sz ! i = 0"
  by (simp add: packet_0_filler_def nth_append)

lemma commands_short: "\<forall>c \<in> set commands. length (fst c) \<le> 5"
  by (simp add: commands_def)

section \<open>The inactivity-timeout code\<close>

text \<open>
  Claim C1. A status report (length at least 16, leading bytes \<open>0x06, 0xb0\<close>) on the
  monitored endpoint whose inactivity-timeout code at offset 12 is outside 0 to 6 makes
  the dispatch raise: the lookup in \<open>INACTIVE_TIME_MINUTES\<close> fails with Python's
  \<^verbatim>\<open>KeyError\<close> on that code (the decoding failure the specification calls a protocol
  violation), no default auto-off value and no status is returned, and the driver
  instance, with its game and chat mix, is as before the call.
\<close>

theorem inactivity_code_out_of_table_raises:
  assumes "length data \<ge> 16" and "data ! 0 = 0x06" and "data ! 1 = 0xb0"
      and "data ! 12 \<notin> {0..6}"
  shows "manage_input_data self data \<lparr>interface = 7, endpoint = 0\<rparr> =
           (Inl (KeyError (data ! 12)), self)"
  using assms
  by (simp add: manage_input_data_def decode_status_def mapped_val_def
      inactive_time_lookup_def INACTIVE_TIME_MINUTES_outside)

theorem inactivity_code_out_of_table_raises_witness:
  "length [0x06, 0xb0, 0, 0, 0, 0, 0, 0, 0, 0, 0, 0, 7, 0, 0, 0 :: int] \<ge> 16
   \<and> (7 :: int) \<notin> {0..6}
   \<and> manage_input_data \<lparr>self_game_mix = Some (1 / 2), self_chat_mix = Some (3 / 4), self_log = []\<rparr>
        [0x06, 0xb0, 0, 0, 0, 0, 0, 0, 0, 0, 0, 0, 7, 0, 0, 0] \<lparr>interface = 7, endpoint = 0\<rparr> =
      (Inl (KeyError 7),
       \<lparr>self_game_mix = Some (1 / 2), self_chat_mix = Some (3 / 4), self_log = []\<rparr>)"
  using inactivity_code_out_of_table_raises
    [of "[0x06, 0xb0, 0, 0, 0, 0, 0, 0, 0, 0, 0, 0, 7, 0, 0, 0]"
        "\<lparr>self_game_mix = Some (1 / 2), self_chat_mix = Some (3 / 4), self_log = []\<rparr>"]
  by simp

section \<open>The pairing state\<close>

text \<open>
  Claim C2, as stated, fails: the report below has \<open>0x04\<close> at offset 13 and \<open>0x01\<close> at
  offset 14, and its pairing state is decoded as not paired, since offset 14 is tested
  first.
\<close>

theorem pairing_offset_14_first_counterexample:
  "[0x06, 0xb0, 0, 0, 0, 0, 0, 0, 0, 0, 0, 0, 0, 0x04, 0x01, 0 :: int] ! 13 = 0x04
   \<and> map_option (interp \<circ> wireless_pairing)
        (decoded_status (manage_input_data
           \<lparr>self_game_mix = None, self_chat_mix = None, self_log = []\<rparr>
           [0x06, 0xb0, 0, 0, 0, 0, 0, 0, 0, 0, 0, 0, 0, 0x04, 0x01, 0]
           \<lparr>interface = 7, endpoint = 0\<rparr>))
      = Some (Label ''pairing.not_paired'')
   \<and> Label ''pairing.not_paired'' \<noteq> Label ''pairing.paired_offline''"
  by (simp add: manage_input_data_def decoded_status_def decode_status_def mapped_val_def
      inactive_time_lookup_def INACTIVE_TIME_MINUTES_def status_text_def mapped_total_def
      chat_mix_state_def)

text \<open>
  Claim C2, amended. For every status report (length at least 16, leading bytes
  \<open>0x06, 0xb0\<close>, inactivity code in 0 to 6) with \<open>0x04\<close> at offset 13, the decoded
  pairing state is not paired when offset 14 holds \<open>0x01\<close> and paired-offline for every
  other value at offset 14.
\<close>

theorem pairing_offset_13_after_offset_14:
  assumes "length data \<ge> 16" and "data ! 0 = 0x06" and "data ! 1 = 0xb0"
      and "data ! 12 \<in> {0..6}" and "data ! 13 = 0x04"
  shows "map_option (interp \<circ> wireless_pairing)
           (decoded_status (manage_input_data self data \<lparr>interface = 7, endpoint = 0\<rparr>))
         = Some (Label (if data ! 14 = 0x01 then ''pairing.not_paired''
                        else ''pairing.paired_offline''))"
proof -
  from decode_status_ok[OF assms(4)] obtain st where st: "decode_status data = Inr st" ..
  then have "wireless_pairing st = status_text (data ! 14)
              (if data ! 14 = 0x01 then ''pairing.not_paired''
               else if data ! 13 = 0x04 then ''pairing.paired_offline''
               else ''connection.connected'')"
    by (auto simp: decode_status_def split: sum.splits)
  with assms st show ?thesis
    by (simp add: manage_status_report decoded_status_def chat_mix_state_def status_text_def)
qed

theorem pairing_offset_13_after_offset_14_witness:
  "length [0x06, 0xb0, 0, 0, 0, 0, 0, 0, 0, 0, 0, 0, 5, 0x04, 0x08, 0 :: int] \<ge> 16
   \<and> (5 :: int) \<in> {0..6}
   \<and> map_option (interp \<circ> wireless_pairing)
        (decoded_status (manage_input_data
           \<lparr>self_game_mix = None, self_chat_mix = None, self_log = []\<rparr>
           [0x06, 0xb0, 0, 0, 0, 0, 0, 0, 0, 0, 0, 0, 5, 0x04, 0x08, 0]
           \<lparr>interface = 7, endpoint = 0\<rparr>))
      = Some (Label ''pairing.paired_offline'')"
  using pairing_offset_13_after_offset_14
    [of "[0x06, 0xb0, 0, 0, 0, 0, 0, 0, 0, 0, 0, 0, 5, 0x04, 0x08, 0]"
        "\<lparr>self_game_mix = None, self_chat_mix = None, self_log = []\<rparr>"]
  by simp

section \<open>Initialization order and acknowledgements\<close>

text \<open>
  Claim C3, as stated, fails: on a device whose interface 7 has the output endpoint at
  index 1, the run of \<open>init_device\<close> does not read the acknowledgement of the first
  command (which expects a response) before it writes the second.
\<close>

theorem init_device_reads_no_ack_counterexample:
  "\<not> spec_acks_read commands
       (events_of (init_device (\<lambda>i d. Inr \<lparr>interface = i, endpoint = 1\<rparr>)
          [[], [], [], [], [], [], [], [0x84, 0x04]]))"
  by (simp add: init_device_example events_of_def commands_def)

text \<open>
  Claim C3, amended. A run of \<open>init_device\<close> that does not raise detaches the kernel
  driver and then writes the commands strictly in table order, one padded frame per
  command with no reordering or batching, all to the resolved endpoint address; the
  \<^verbatim>\<open>expectsResponse\<close> flag is ignored and no acknowledgement is read.
\<close>

theorem init_device_writes_in_table_order:
  assumes "init_device g ifs = Inr es"
  shows "(\<exists>ep addr. es = KernelDetach ep #
             map (\<lambda>c. Write addr (packet_0_filler (fst c) 91)) commands)
         \<and> (\<forall>b. Read b \<notin> set es)"
proof -
  from init_device_events[OF assms] obtain ep addr
    where es: "es = KernelDetach ep # write_commands addr commands" by blast
  then show ?thesis
    using write_commands_no_read by (auto simp: write_commands_map)
qed

theorem init_device_writes_in_table_order_witness:
  "init_device (\<lambda>i d. Inr \<lparr>interface = i, endpoint = 1\<rparr>)
       [[], [], [], [], [], [], [], [0x84, 0x04]] =
     Inr (KernelDetach \<lparr>interface = 7, endpoint = 1\<rparr> # write_commands 0x04 commands)
   \<and> (\<exists>ep addr. KernelDetach \<lparr>interface = 7, endpoint = 1\<rparr> # write_commands 0x04 commands =
         KernelDetach ep # map (\<lambda>c. Write addr (packet_0_filler (fst c) 91)) commands)
   \<and> Read 0x84 \<notin> set (KernelDetach \<lparr>interface = 7, endpoint = 1\<rparr> #
                        write_commands 0x04 commands)"
  using init_device_writes_in_table_order [OF init_device_example] init_device_example
  by blast

section \<open>Game and chat mix reports\<close>

text \<open>
  Claim C4, as stated, fails: a mix report with 150 at offset 2 is no error; it returns
  the game mix 1.5 (neither rejected nor clamped).
\<close>

theorem mix_above_100_accepted_counterexample:
  "manage_input_data \<lparr>self_game_mix = None, self_chat_mix = None, self_log = []\<rparr>
      [0x07, 0x45, 150, 75] \<lparr>interface = 7, endpoint = 0\<rparr> =
   (Inr \<lparr>game_volume = 1, chat_volume = 1, game_mix = 3 / 2, chat_mix = 3 / 4,
         device_status = None\<rparr>,
    \<lparr>self_game_mix = Some (3 / 2), self_chat_mix = Some (3 / 4),
      self_log = [DebugText ''Received volume control data.'']\<rparr>)"
  by (simp add: manage_input_data_def log_debug_def chat_mix_state_def)

text \<open>
  Claim C4, amended. For every mix report (length at least 4, leading bytes
  \<open>0x07, 0x45\<close>) on the monitored endpoint, \<open>manage_input_data\<close> raises nothing, stores
  and returns game mix \<open>data[2]/100\<close> and chat mix \<open>data[3]/100\<close> with both volumes 1
  and no device status, whatever the two bytes are; the fractions lie in \<open>[0, 1]\<close>
  whenever the bytes are in 0 to 100.
\<close>

theorem mix_report_fractions:
  assumes "length data \<ge> 4" and "data ! 0 = 0x07" and "data ! 1 = 0x45"
  shows "fst (manage_input_data self data \<lparr>interface = 7, endpoint = 0\<rparr>) =
           Inr \<lparr>game_volume = 1, chat_volume = 1,
                game_mix = of_int (data ! 2) / 100, chat_mix = of_int (data ! 3) / 100,
                device_status = None\<rparr>
         \<and> self_game_mix (snd (manage_input_data self data \<lparr>interface = 7, endpoint = 0\<rparr>)) =
             Some (of_int (data ! 2) / 100)
         \<and> self_chat_mix (snd (manage_input_data self data \<lparr>interface = 7, endpoint = 0\<rparr>)) =
             Some (of_int (data ! 3) / 100)
         \<and> (0 \<le> data ! 2 \<and> data ! 2 \<le> 100 \<longrightarrow>
              0 \<le> (of_int (data ! 2) / 100 :: real) \<and> (of_int (data ! 2) / 100 :: real) \<le> 1)
         \<and> (0 \<le> data ! 3 \<and> data ! 3 \<le> 100 \<longrightarrow>
              0 \<le> (of_int (data ! 3) / 100 :: real) \<and> (of_int (data ! 3) / 100 :: real) \<le> 1)"
  using assms by (simp add: manage_input_data_def log_debug_def chat_mix_state_def)

theorem mix_report_fractions_witness:
  "length [0x07, 0x45, 50, 75 :: int] \<ge> 4
   \<and> (0 :: int) \<le> 50 \<and> (50 :: int) \<le> 100 \<and> (0 :: int) \<le> 75 \<and> (75 :: int) \<le> 100
   \<and> fst (manage_input_data \<lparr>self_game_mix = None, self_chat_mix = None, self_log = []\<rparr>
        [0x07, 0x45, 50, 75] \<lparr>interface = 7, endpoint = 0\<rparr>) =
      Inr \<lparr>game_volume = 1, chat_volume = 1, game_mix = 1 / 2, chat_mix = 3 / 4,
           device_status = None\<rparr>"
  using mix_report_fractions
    [of "[0x07, 0x45, 50, 75]" "\<lparr>self_game_mix = None, self_chat_mix = None, self_log = []\<rparr>"]
  by simp

section \<open>The status report of scenario 2\<close>

text \<open>
  Claim C5, as stated, fails on two fields of that report: offset 4 holds \<open>0x01\<close>, which
  decodes the bluetooth power status to off (not on), and offset 13 holds \<open>0x01\<close>, not
  \<open>0x04\<close>, so the pairing state is decoded as connected (not paired-offline).
\<close>

theorem scenario_2_power_and_pairing_counterexample:
  "map_option (interp \<circ> bluetooth_power_status)
     (decoded_status (manage_input_data
        \<lparr>self_game_mix = None, self_chat_mix = None, self_log = []\<rparr>
        [0x06, 0xb0, 0x00, 0x01, 0x01, 0x01, 64, 64, 30, 0x00, 0x02, 50, 5, 0x01, 0x04, 0x02]
        \<lparr>interface = 7, endpoint = 0\<rparr>))
     = Some (Label ''on_off.off'')
   \<and> map_option (interp \<circ> wireless_pairing)
     (decoded_status (manage_input_data
        \<lparr>self_game_mix = None, self_chat_mix = None, self_log = []\<rparr>
        [0x06, 0xb0, 0x00, 0x01, 0x01, 0x01, 64, 64, 30, 0x00, 0x02, 50, 5, 0x01, 0x04, 0x02]
        \<lparr>interface = 7, endpoint = 0\<rparr>))
     = Some (Label ''connection.connected'')
   \<and> Label ''on_off.off'' \<noteq> Label ''on_off.on''
   \<and> Label ''connection.connected'' \<noteq> Label ''pairing.paired_offline''"
  by (simp add: manage_input_data_def decoded_status_def decode_status_def mapped_val_def
      inactive_time_lookup_def INACTIVE_TIME_MINUTES_def status_text_def mapped_total_def
      chat_mix_state_def)

text \<open>
  Claim C5, amended. The report decodes to exactly: bluetooth power-up off, bluetooth
  auto-mute -12dB, bluetooth power off, bluetooth connection connected, headset battery
  8.0, slot battery 8.0, noise-cancelling level 3, microphone unmuted, noise cancelling
  on, microphone LED 5.0, auto-off 30 minutes, wireless mode range, wireless pairing
  connected, and headset power online (offset 15 is not \<open>0x01\<close> and offset 14 is not
  \<open>0x02\<close>); the driver instance is unchanged.
\<close>

theorem scenario_2_decoding:
  "manage_input_data self
      [0x06, 0xb0, 0x00, 0x01, 0x01, 0x01, 64, 64, 30, 0x00, 0x02, 50, 5, 0x01, 0x04, 0x02]
      \<lparr>interface = 7, endpoint = 0\<rparr> =
   (Inr (chat_mix_state self (Some \<lparr>
      bluetooth_powerup_state = \<lparr>raw_value = 0, interp = Label ''on_off.off''\<rparr>,
      bluetooth_auto_mute = \<lparr>raw_value = 1, interp = Label ''db.-12db''\<rparr>,
      bluetooth_power_status = \<lparr>raw_value = 1, interp = Label ''on_off.off''\<rparr>,
      bluetooth_connection = \<lparr>raw_value = 1, interp = Label ''connection.connected''\<rparr>,
      headset_battery_charge = \<lparr>raw_value = 64, interp = FloatVal 8\<rparr>,
      charge_slot_battery_charge = \<lparr>raw_value = 64, interp = FloatVal 8\<rparr>,
      transparent_noise_cancelling_level = \<lparr>raw_value = 30, interp = FloatVal 3\<rparr>,
      mic_status = \<lparr>raw_value = 0, interp = Label ''mic_status.unmuted''\<rparr>,
      noise_cancelling = \<lparr>raw_value = 2, interp = Label ''on''\<rparr>,
      mic_led_brightness = \<lparr>raw_value = 50, interp = FloatVal 5\<rparr>,
      auto_off_time_minutes = \<lparr>raw_value = 5, interp = IntVal 30\<rparr>,
      wireless_mode = \<lparr>raw_value = 1, interp = Label ''wireless_mode.range''\<rparr>,
      wireless_pairing = \<lparr>raw_value = 4, interp = Label ''connection.connected''\<rparr>,
      headset_power_status = \<lparr>raw_value = 2, interp = Label ''connection.online''\<rparr>\<rparr>)),
    self)"
  by (simp add: manage_input_data_def decode_status_def mapped_val_def
      inactive_time_lookup_def INACTIVE_TIME_MINUTES_def status_text_def mapped_total_def
      py_round_def round_half_even_def)

section \<open>Frames written during initialization\<close>

text \<open>
  Claim C6. A run of \<open>init_device\<close> that does not raise writes exactly one frame per
  entry of the command table, in table order, each frame being the command bytes followed
  by zeros up to exactly 91 bytes; and for every packet of length at most 91,
  \<open>packet_0_filler packet 91\<close> has length 91, starts with the packet and is zero at
  every later index.
\<close>

theorem init_frames_zero_padded:
  assumes "init_device g ifs = Inr es" and "length p \<le> 91"
  shows "written_frames es = map (\<lambda>c. fst c @ replicate (91 - length (fst c)) 0) commands
         \<and> length (written_frames es) = length commands
         \<and> (\<forall>f \<in> set (written_frames es). length f = 91)
         \<and> length (packet_0_filler p 91) = 91
         \<and> take (length p) (packet_0_filler p 91) = p
         \<and> (\<forall>i. length p \<le> i \<and> i < 91 \<longrightarrow> packet_0_filler p 91 ! i = 0)"
proof (intro conjI allI impI)
  from init_device_events[OF assms(1)] obtain ep addr
    where es: "es = KernelDetach ep # write_commands addr commands" by blast
  have wf: "written_frames es = map (\<lambda>c. packet_0_filler (fst c) 91) commands"
    by (simp add: es written_frames_write_commands)
  have eq: "packet_0_filler (fst c) 91 = fst c @ replicate (91 - length (fst c)) 0"
    if "c \<in> set commands" for c
    using commands_short that by (auto simp: packet_0_filler_def nat_diff_distrib')
  show "written_frames es = map (\<lambda>c. fst c @ replicate (91 - length (fst c)) 0) commands"
    unfolding wf using eq by simp
  show "length (written_frames es) = length commands"
    by (simp add: wf)
  show "\<forall>f \<in> set (written_frames es). length f = 91"
    unfolding wf using commands_short by (auto simp: packet_0_filler_def)
  show "length (packet_0_filler p 91) = 91"
    using assms(2) by (simp add: packet_0_filler_def)
  show "take (length p) (packet_0_filler p 91) = p"
    by (rule packet_0_filler_take)
next
  fix i assume "length p \<le> i \<and> i < 91"
  with assms(2) have "length p \<le> i" "i < length (packet_0_filler p 91)"
    by (auto simp add: packet_0_filler_def)
  then show "packet_0_filler p 91 ! i = 0"
    by (rule packet_0_filler_zero)
qed

theorem init_frames_zero_padded_witness:
  "init_device (\<lambda>i d. Inr \<lparr>interface = i, endpoint = 1\<rparr>)
       [[], [], [], [], [], [], [], [0x84, 0x04]] =
     Inr (KernelDetach \<lparr>interface = 7, endpoint = 1\<rparr> # write_commands 0x04 commands)
   \<and> length [0x06, 0xb0 :: int] \<le> 91
   \<and> written_frames (KernelDetach \<lparr>interface = 7, endpoint = 1\<rparr> # write_commands 0x04 commands)
       = map (\<lambda>c. fst c @ replicate (91 - length (fst c)) 0) commands
   \<and> length (packet_0_filler [0x06, 0xb0] 91) = 91
   \<and> take (length [0x06, 0xb0 :: int]) (packet_0_filler [0x06, 0xb0] 91) = [0x06, 0xb0]
   \<and> packet_0_filler [0x06, 0xb0] 91 ! 2 = 0
   \<and> packet_0_filler [0x06, 0xb0] 91 ! 90 = 0"
proof -
  have len: "length [0x06, 0xb0 :: int] \<le> 91"
    by simp
  note padded = init_frames_zero_padded [OF init_device_example len]
  from padded have "packet_0_filler [0x06, 0xb0] 91 ! i = 0"
    if "length [0x06, 0xb0 :: int] \<le> i" and "i < 91" for i
    using that by blast
  from this [of 2] this [of 90]
  have "packet_0_filler [0x06, 0xb0] 91 ! 2 = 0" and "packet_0_filler [0x06, 0xb0] 91 ! 90 = 0"
    by simp_all
  with padded init_device_example len show ?thesis
    by blast
qed

section \<open>Reports that change nothing\<close>

text \<open>
  Claim C7. A report on the monitored endpoint whose leading bytes match none of the
  known patterns (\<open>0x07, 0x25\<close>; \<open>0x07, 0x45\<close> with length at least 4; \<open>0x06, 0xb0\<close>
  with length at least 16) raises nothing, leaves the stored game and chat mix as they
  were, and returns a state without device status whose mix fractions are the stored
  ones (1 when never set).
\<close>

theorem unrecognized_report_keeps_mix:
  assumes "\<not> (length data \<ge> 2 \<and> data ! 0 = 0x07 \<and> data ! 1 = 0x25)"
      and "\<not> (length data \<ge> 4 \<and> data ! 0 = 0x07 \<and> data ! 1 = 0x45)"
      and "\<not> (length data \<ge> 16 \<and> data ! 0 = 0x06 \<and> data ! 1 = 0xb0)"
  shows "fst (manage_input_data self data \<lparr>interface = 7, endpoint = 0\<rparr>) =
           Inr \<lparr>game_volume = 1, chat_volume = 1,
                game_mix = (case self_game_mix self of Some g \<Rightarrow> g | None \<Rightarrow> 1),
                chat_mix = (case self_chat_mix self of Some c \<Rightarrow> c | None \<Rightarrow> 1),
                device_status = None\<rparr>
         \<and> self_game_mix (snd (manage_input_data self data \<lparr>interface = 7, endpoint = 0\<rparr>)) =
             self_game_mix self
         \<and> self_chat_mix (snd (manage_input_data self data \<lparr>interface = 7, endpoint = 0\<rparr>)) =
             self_chat_mix self"
  by (simp add: manage_unrecognized[OF assms] log_debug_def chat_mix_state_def)

theorem unrecognized_report_keeps_mix_witness:
  "\<not> (length [0x06, 0xb0, 0x00 :: int] \<ge> 16)
   \<and> [0x06, 0xb0, 0x00 :: int] ! 0 \<noteq> 0x07
   \<and> fst (manage_input_data
        \<lparr>self_game_mix = Some (1 / 4), self_chat_mix = None, self_log = []\<rparr>
        [0x06, 0xb0, 0x00] \<lparr>interface = 7, endpoint = 0\<rparr>) =
      Inr \<lparr>game_volume = 1, chat_volume = 1, game_mix = 1 / 4, chat_mix = 1,
           device_status = None\<rparr>
   \<and> self_game_mix (snd (manage_input_data
        \<lparr>self_game_mix = Some (1 / 4), self_chat_mix = None, self_log = []\<rparr>
        [0x06, 0xb0, 0x00] \<lparr>interface = 7, endpoint = 0\<rparr>)) = Some (1 / 4)
   \<and> self_chat_mix (snd (manage_input_data
        \<lparr>self_game_mix = Some (1 / 4), self_chat_mix = None, self_log = []\<rparr>
        [0x06, 0xb0, 0x00] \<lparr>interface = 7, endpoint = 0\<rparr>)) = None"
  using unrecognized_report_keeps_mix
    [of "[0x06, 0xb0, 0x00]" "\<lparr>self_game_mix = Some (1 / 4), self_chat_mix = None, self_log = []\<rparr>"]
  by simp

text \<open>
  Claim C9. A report delivered with an endpoint other than interface 7, endpoint 0
  leaves the stored game and chat mix as they were and returns a state without device
  status, whatever its bytes are, the recognized patterns included.
\<close>

theorem other_endpoint_keeps_mix:
  assumes "ep \<noteq> \<lparr>interface = 7, endpoint = 0\<rparr>"
  shows "self_game_mix (snd (manage_input_data self data ep)) = self_game_mix self
         \<and> self_chat_mix (snd (manage_input_data self data ep)) = self_chat_mix self
         \<and> (\<exists>s. fst (manage_input_data self data ep) = Inr s \<and> device_status s = None)"
  using assms by (simp add: manage_input_data_def log_debug_def chat_mix_state_def)

theorem other_endpoint_keeps_mix_witness:
  "\<lparr>interface = 7, endpoint = 1\<rparr> \<noteq> \<lparr>interface = 7, endpoint = 0\<rparr>
   \<and> self_game_mix (snd (manage_input_data
        \<lparr>self_game_mix = Some (1 / 4), self_chat_mix = None, self_log = []\<rparr>
        [0x07, 0x45, 50, 75] \<lparr>interface = 7, endpoint = 1\<rparr>)) = Some (1 / 4)
   \<and> self_chat_mix (snd (manage_input_data
        \<lparr>self_game_mix = Some (1 / 4), self_chat_mix = None, self_log = []\<rparr>
        [0x07, 0x45, 50, 75] \<lparr>interface = 7, endpoint = 1\<rparr>)) = None"
  using other_endpoint_keeps_mix
    [of "\<lparr>interface = 7, endpoint = 1\<rparr>"
        "\<lparr>self_game_mix = Some (1 / 4), self_chat_mix = None, self_log = []\<rparr>"
        "[0x07, 0x45, 50, 75]"]
  by simp

section \<open>Determinism of status decoding\<close>

text \<open>
  Claim C8. For a valid status report (length at least 16, leading bytes \<open>0x06, 0xb0\<close>,
  inactivity code in 0 to 6), two invocations of \<open>manage_input_data\<close> on the same bytes
  decode the same \<open>DeviceStatus\<close>, field by field, raw and interpreted values alike;
  this holds in the same mix state and even across different ones.
\<close>

theorem status_decoding_deterministic:
  assumes "length data \<ge> 16" and "data ! 0 = 0x06" and "data ! 1 = 0xb0"
      and "data ! 12 \<in> {0..6}"
  shows "\<exists>st. decoded_status (manage_input_data self1 data \<lparr>interface = 7, endpoint = 0\<rparr>) = Some st
            \<and> decoded_status (manage_input_data self2 data \<lparr>interface = 7, endpoint = 0\<rparr>) = Some st"
proof -
  from decode_status_ok[OF assms(4)] obtain st where "decode_status data = Inr st" ..
  with assms show ?thesis
    by (simp add: manage_status_report decoded_status_def chat_mix_state_def)
qed

theorem status_decoding_deterministic_witness:
  "length [0x06, 0xb0, 0, 1, 1, 1, 64, 64, 30, 0, 2, 50, 5, 1, 4, 2 :: int] \<ge> 16
   \<and> (5 :: int) \<in> {0..6}
   \<and> (\<exists>st. decoded_status (manage_input_data
              \<lparr>self_game_mix = None, self_chat_mix = None, self_log = []\<rparr>
              [0x06, 0xb0, 0, 1, 1, 1, 64, 64, 30, 0, 2, 50, 5, 1, 4, 2]
              \<lparr>interface = 7, endpoint = 0\<rparr>) = Some st
          \<and> decoded_status (manage_input_data
              \<lparr>self_game_mix = Some (1 / 2), self_chat_mix = Some (3 / 4), self_log = []\<rparr>
              [0x06, 0xb0, 0, 1, 1, 1, 64, 64, 30, 0, 2, 50, 5, 1, 4, 2]
              \<lparr>interface = 7, endpoint = 0\<rparr>) = Some st)"
  using status_decoding_deterministic
    [of "[0x06, 0xb0, 0, 1, 1, 1, 64, 64, 30, 0, 2, 50, 5, 1, 4, 2]"
        "\<lparr>self_game_mix = None, self_chat_mix = None, self_log = []\<rparr>"
        "\<lparr>self_game_mix = Some (1 / 2), self_chat_mix = Some (3 / 4), self_log = []\<rparr>"]
  by simp

section \<open>The settings catalog\<close>

text \<open>
  Claim C10. The catalog returned by \<open>get_configurable_settings\<close> does not depend on
  its optional status argument: for any two statuses (\<open>None\<close> included) the sections,
  setting kinds, bounds and current values are the same, so asking twice with the same
  status gives the same current values; and the call leaves the driver instance as it
  was.
\<close>

theorem settings_catalog_ignores_status:
  "fst (get_configurable_settings self s1) = fst (get_configurable_settings self s2)
   \<and> snd (get_configurable_settings self s1) = self"
  by (simp add: get_configurable_settings_def)

end
